theory Spec2Isabelle
  imports Main "HOL-Library.Word"
begin

section \<open>The weakly linked getauxval probe\<close>

text \<open>
  The translation unit \<^verbatim>\<open>src/c/getauxval-wrapper.c\<close> holds one function,
  \<^verbatim>\<open>getauxval_wrapper\<close>. It touches three things outside its own locals:
  the weak symbol \<^verbatim>\<open>getauxval\<close>, the process-wide \<^verbatim>\<open>errno\<close>, and the cell
  \<^verbatim>\<open>*result\<close> supplied by the caller.

  \<^item> \<^verbatim>\<open>unsigned long\<close> is a word of some width \<open>'l\<close> (32 or 64 bits on Linux); the
    development is polymorphic in it. Events and worlds are declared over the type
    \<open>'v\<close> of such values and used at \<open>'l ulong\<close>.
  \<^item> \<^verbatim>\<open>errno\<close> is a C \<^verbatim>\<open>int\<close> and the return type is \<^verbatim>\<open>int32_t\<close>: both are
    \<open>32 word\<close>, where \<open>- 1\<close> and \<open>- 2\<close> are the two's complement patterns.
  \<^item> The weak symbol is an optional function: \<open>None\<close> is the unresolved symbol
    (the comparison \<^verbatim>\<open>getauxval == NULL\<close> is true), \<open>Some f\<close> a resolved one.
    The only channel besides its return value through which the facility talks to the
    wrapper is \<^verbatim>\<open>errno\<close>, so \<open>f\<close> maps the key and the indicator found at the
    call to the returned value and the indicator left behind.
  \<^item> \<^verbatim>\<open>result\<close> is taken to point to a valid \<^verbatim>\<open>unsigned long\<close> object distinct
    from \<^verbatim>\<open>errno\<close>, as the prototype's comment expects (it "writes to the result
    pointer param"); the cell is the field \<open>out_cell\<close>.
  \<^item> Every access of the wrapper to the three external things is appended to a log, in
    program order, so that statements about what the code does or does not touch can
    be read off the model.
\<close>

type_synonym c_int = "32 word"

datatype 'v event =
    CallFacility 'v
  | ReadErrno
  | WriteErrno c_int
  | StoreResult 'v

record 'v world =
  errno :: c_int
  out_cell :: 'v
  trace :: "'v event list"

type_synonym 'l ulong = "'l word"

type_synonym 'l facility = "'l ulong \<Rightarrow> c_int \<Rightarrow> 'l ulong \<times> c_int"

text \<open>The value of \<^verbatim>\<open>ENOENT\<close> in the Linux \<^verbatim>\<open>errno.h\<close> the file is compiled against.\<close>

definition ENOENT :: c_int where
  "ENOENT = 2"

subsection \<open>The accesses the function body is made of\<close>

text \<open>\<^verbatim>\<open>getauxval(key)\<close>, line 30: the facility runs on the current indicator.\<close>

definition call_getauxval ::
  "'l facility \<Rightarrow> 'l ulong \<Rightarrow> 'l ulong world \<Rightarrow> 'l ulong \<times> 'l ulong world" where
  "call_getauxval f key s =
     (case f key (errno s) of
        (v, e) \<Rightarrow> (v, s\<lparr>errno := e, trace := trace s @ [CallFacility key]\<rparr>))"

text \<open>An rvalue use of \<^verbatim>\<open>errno\<close>, lines 31 and 35.\<close>

definition read_errno :: "'l ulong world \<Rightarrow> c_int \<times> 'l ulong world" where
  "read_errno s = (errno s, s\<lparr>trace := trace s @ [ReadErrno]\<rparr>)"

text \<open>\<^verbatim>\<open>errno = e\<close>, lines 33 and 38.\<close>

definition write_errno :: "c_int \<Rightarrow> 'l ulong world \<Rightarrow> 'l ulong world" where
  "write_errno e s = s\<lparr>errno := e, trace := trace s @ [WriteErrno e]\<rparr>"

text \<open>\<^verbatim>\<open>*result = v\<close>, line 42.\<close>

definition store_result :: "'l ulong \<Rightarrow> 'l ulong world \<Rightarrow> 'l ulong world" where
  "store_result v s = s\<lparr>out_cell := v, trace := trace s @ [StoreResult v]\<rparr>"

subsection \<open>The function\<close>

text \<open>
  Lines 25 to 44, statement by statement. The first argument is the weak symbol; the
  result is the returned code and the world the call leaves behind.
\<close>

definition getauxval_wrapper ::
  "'l facility option \<Rightarrow> 'l ulong \<Rightarrow> 'l ulong world \<Rightarrow> 32 word \<times> 'l ulong world" where
  "getauxval_wrapper getauxval key s =
     (case getauxval of
        None \<Rightarrow> (- 1, s)
      | Some f \<Rightarrow>
          (case call_getauxval f key s of
             (auxval, s1) \<Rightarrow>
               (case read_errno s1 of
                  (e1, s2) \<Rightarrow>
                    if e1 = ENOENT then (0, write_errno 0 s2)
                    else
                      (case read_errno s2 of
                         (e2, s3) \<Rightarrow>
                           if e2 \<noteq> 0 then (- 2, write_errno 0 s3)
                           else (1, store_result auxval s3)))))"

text \<open>The part of the log a call appended to the one it found.\<close>

definition new_events :: "'l ulong world \<Rightarrow> 'l ulong world \<Rightarrow> 'l ulong event list" where
  "new_events s s' = drop (length (trace s)) (trace s')"

fun is_store :: "'l ulong event \<Rightarrow> bool" where
  "is_store (StoreResult v) = True"
| "is_store _ = False"

fun is_call :: "'l ulong event \<Rightarrow> bool" where
  "is_call (CallFacility k) = True"
| "is_call _ = False"

fun is_errno_access :: "'l ulong event \<Rightarrow> bool" where
  "is_errno_access ReadErrno = True"
| "is_errno_access (WriteErrno e) = True"
| "is_errno_access _ = False"

fun is_errno_write :: "'l ulong event \<Rightarrow> bool" where
  "is_errno_write (WriteErrno e) = True"
| "is_errno_write _ = False"

section \<open>What one call does, branch by branch\<close>

lemma wrapper_absent:
  "getauxval_wrapper None key s = (- 1, s)"
  by (simp add: getauxval_wrapper_def)

lemma wrapper_enoent:
  assumes "f key (errno s) = (v, e)" and "e = ENOENT"
  shows "getauxval_wrapper (Some f) key s =
           (0, s\<lparr>errno := 0,
                 trace := trace s @ [CallFacility key, ReadErrno, WriteErrno 0]\<rparr>)"
  using assms
  by (simp add: getauxval_wrapper_def call_getauxval_def read_errno_def write_errno_def)

lemma wrapper_other_error:
  assumes "f key (errno s) = (v, e)" and "e \<noteq> ENOENT" and "e \<noteq> 0"
  shows "getauxval_wrapper (Some f) key s =
           (- 2, s\<lparr>errno := 0,
                   trace := trace s @ [CallFacility key, ReadErrno, ReadErrno, WriteErrno 0]\<rparr>)"
  using assms
  by (simp add: getauxval_wrapper_def call_getauxval_def read_errno_def write_errno_def)

lemma wrapper_success:
  assumes "f key (errno s) = (v, e)" and "e = 0"
  shows "getauxval_wrapper (Some f) key s =
           (1, s\<lparr>errno := 0, out_cell := v,
                 trace := trace s @ [CallFacility key, ReadErrno, ReadErrno, StoreResult v]\<rparr>)"
  using assms
  by (simp add: getauxval_wrapper_def call_getauxval_def read_errno_def store_result_def
      ENOENT_def)

text \<open>The four codes are four different values of \<^verbatim>\<open>int32_t\<close>.\<close>

lemma codes_distinct:
  "(1 :: 32 word) \<noteq> 0" "(1 :: 32 word) \<noteq> - 1" "(1 :: 32 word) \<noteq> - 2"
  "(0 :: 32 word) \<noteq> - 1" "(0 :: 32 word) \<noteq> - 2" "(- 1 :: 32 word) \<noteq> - 2"
  by simp_all

text \<open>The events of a call whose log extends the one it found.\<close>

lemma new_events_append [simp]:
  "trace s' = trace s @ xs \<Longrightarrow> new_events s s' = xs"
  by (simp add: new_events_def)

lemma new_events_self [simp]: "new_events s s = []"
  by (simp add: new_events_def)

text \<open>
  Every call takes one of four paths through the body; each fixes the code and the world
  left behind.
\<close>

lemma wrapper_cases:
  obtains (absent) "g = None" "getauxval_wrapper g key s = (- 1, s)"
  | (enoent) f v where "g = Some f" "f key (errno s) = (v, ENOENT)"
      "getauxval_wrapper g key s =
         (0, s\<lparr>errno := 0, trace := trace s @ [CallFacility key, ReadErrno, WriteErrno 0]\<rparr>)"
  | (other) f v e where "g = Some f" "f key (errno s) = (v, e)" "e \<noteq> ENOENT" "e \<noteq> 0"
      "getauxval_wrapper g key s =
         (- 2, s\<lparr>errno := 0,
                 trace := trace s @ [CallFacility key, ReadErrno, ReadErrno, WriteErrno 0]\<rparr>)"
  | (success) f v where "g = Some f" "f key (errno s) = (v, 0)"
      "getauxval_wrapper g key s =
         (1, s\<lparr>errno := 0, out_cell := v,
               trace := trace s @ [CallFacility key, ReadErrno, ReadErrno, StoreResult v]\<rparr>)"
proof (cases g)
  case None
  then show ?thesis using absent by (simp add: wrapper_absent)
next
  case (Some f)
  obtain v e where fe: "f key (errno s) = (v, e)" by (cases "f key (errno s)")
  show ?thesis
  proof (cases "e = ENOENT")
    case True
    then show ?thesis using enoent [of f v] Some fe wrapper_enoent [of f key s v e] by simp
  next
    case ne: False
    show ?thesis
    proof (cases "e = 0")
      case True
      then show ?thesis using success [of f v] Some fe wrapper_success [of f key s v e] by simp
    next
      case False
      then show ?thesis using other [of f v e] Some fe ne wrapper_other_error [of f key s v e] by simp
    qed
  qed
qed

section \<open>The claims\<close>

text \<open>
  Claim C1, as stated: on every branch, the facility-unavailable one included, \<^verbatim>\<open>errno\<close>
  is 0 after the call. It fails where the weak symbol is unresolved and \<^verbatim>\<open>errno\<close> is 5
  at entry: the function returns at line 27 and \<^verbatim>\<open>errno\<close> is still 5.
\<close>

theorem errno_not_cleared_when_absent:
  "errno (snd (getauxval_wrapper (None :: 64 facility option) 16
      \<lparr>errno = 5, out_cell = 0, trace = []\<rparr>)) \<noteq> 0"
  by (simp add: getauxval_wrapper_def)

text \<open>
  Claim C1, amended: for every key, on the three branches that call the facility
  (return codes 1, 0 and \<open>- 2\<close>) \<^verbatim>\<open>errno\<close> is 0 after the call; on the
  facility-unavailable branch (return code \<open>- 1\<close>) \<^verbatim>\<open>errno\<close> keeps the value it had at
  entry.
\<close>

theorem errno_after_call:
  "(fst (getauxval_wrapper g key s) \<noteq> - 1 \<longrightarrow> errno (snd (getauxval_wrapper g key s)) = 0) \<and>
   (fst (getauxval_wrapper g key s) = - 1 \<longrightarrow>
      errno (snd (getauxval_wrapper g key s)) = errno s)"
  by (cases g key s rule: wrapper_cases) simp_all

text \<open>
  Claim C1, amended, at a present facility that succeeds and at an absent one, both entered
  with \<^verbatim>\<open>errno\<close> 7.
\<close>

theorem errno_after_call_witness:
  "fst (getauxval_wrapper (Some (\<lambda>k e. (k + 1, 0))) (16 :: 64 word)
          \<lparr>errno = 7, out_cell = 0, trace = []\<rparr>) \<noteq> - 1 \<and>
   errno (snd (getauxval_wrapper (Some (\<lambda>k e. (k + 1, 0))) (16 :: 64 word)
          \<lparr>errno = 7, out_cell = 0, trace = []\<rparr>)) = 0 \<and>
   fst (getauxval_wrapper None (16 :: 64 word)
          \<lparr>errno = 7, out_cell = 0, trace = []\<rparr>) = - 1 \<and>
   errno (snd (getauxval_wrapper None (16 :: 64 word)
          \<lparr>errno = 7, out_cell = 0, trace = []\<rparr>)) = 7"
proof -
  let ?s = "\<lparr>errno = 7, out_cell = 0 :: 64 word, trace = []\<rparr>"
  have present: "fst (getauxval_wrapper (Some (\<lambda>k e. (k + 1, 0))) 16 ?s) \<noteq> - 1"
    by (simp add: wrapper_success [of _ _ _ 17 0])
  have absent: "fst (getauxval_wrapper None 16 ?s) = - 1"
    by (simp add: wrapper_absent)
  from present absent
    errno_after_call [of "Some (\<lambda>k e. (k + 1, 0))" 16 ?s]
    errno_after_call [of None 16 ?s]
  show ?thesis by simp
qed

text \<open>
  Claim C2: for every key and every state of the facility, the call stores to
  \<^verbatim>\<open>*result\<close> if and only if it returns 1. When it returns anything else, the cell
  holds the value it held at entry. When it returns 1, the facility is present, the cell
  holds the value the facility returned for the key, and that one store is the only
  store of the call.
\<close>

theorem out_written_iff_success:
  "(list_ex is_store (new_events s (snd (getauxval_wrapper g key s)))
      \<longleftrightarrow> fst (getauxval_wrapper g key s) = 1) \<and>
   (fst (getauxval_wrapper g key s) \<noteq> 1 \<longrightarrow>
      out_cell (snd (getauxval_wrapper g key s)) = out_cell s) \<and>
   (fst (getauxval_wrapper g key s) = 1 \<longrightarrow>
      (\<exists>f. g = Some f \<and>
         out_cell (snd (getauxval_wrapper g key s)) = fst (f key (errno s))) \<and>
      filter is_store (new_events s (snd (getauxval_wrapper g key s))) =
        [StoreResult (out_cell (snd (getauxval_wrapper g key s)))])"
  by (cases g key s rule: wrapper_cases) simp_all

text \<open>
  Claim C2 on both sides. At a facility that reports \<^verbatim>\<open>ENOENT\<close> the code is not 1,
  nothing is stored and the cell is still 42. At a facility that returns the key plus one
  and leaves \<^verbatim>\<open>errno\<close> alone the code is 1 and the single store puts 17 into the cell
  that held 42.
\<close>

theorem out_written_iff_success_witness:
  "fst (getauxval_wrapper (Some (\<lambda>k e. (0, ENOENT))) (99 :: 64 word)
          \<lparr>errno = 0, out_cell = 42, trace = []\<rparr>) \<noteq> 1 \<and>
   out_cell (snd (getauxval_wrapper (Some (\<lambda>k e. (0, ENOENT))) (99 :: 64 word)
          \<lparr>errno = 0, out_cell = 42, trace = []\<rparr>)) = 42 \<and>
   \<not> list_ex is_store (new_events \<lparr>errno = 0, out_cell = 42, trace = []\<rparr>
        (snd (getauxval_wrapper (Some (\<lambda>k e. (0, ENOENT))) (99 :: 64 word)
          \<lparr>errno = 0, out_cell = 42, trace = []\<rparr>))) \<and>
   fst (getauxval_wrapper (Some (\<lambda>k e. (k + 1, e))) (16 :: 64 word)
          \<lparr>errno = 0, out_cell = 42, trace = []\<rparr>) = 1 \<and>
   out_cell (snd (getauxval_wrapper (Some (\<lambda>k e. (k + 1, e))) (16 :: 64 word)
          \<lparr>errno = 0, out_cell = 42, trace = []\<rparr>)) = 17 \<and>
   filter is_store (new_events \<lparr>errno = 0, out_cell = 42, trace = []\<rparr>
        (snd (getauxval_wrapper (Some (\<lambda>k e. (k + 1, e))) (16 :: 64 word)
          \<lparr>errno = 0, out_cell = 42, trace = []\<rparr>))) = [StoreResult 17]"
proof -
  let ?s = "\<lparr>errno = 0, out_cell = 42 :: 64 word, trace = []\<rparr>"
  let ?f = "\<lambda>(k :: 64 word) (e :: c_int). (k + 1, e)"
  have failed: "fst (getauxval_wrapper (Some (\<lambda>k e. (0, ENOENT))) 99 ?s) \<noteq> 1"
    by (simp add: wrapper_enoent [of _ _ _ 0 ENOENT])
  have succeeded: "fst (getauxval_wrapper (Some ?f) 16 ?s) = 1"
    by (simp add: wrapper_success [of ?f 16 ?s 17 0])
  from out_written_iff_success [of ?s "Some ?f" 16] succeeded
  have stored: "out_cell (snd (getauxval_wrapper (Some ?f) 16 ?s)) = 17 \<and>
      filter is_store (new_events ?s (snd (getauxval_wrapper (Some ?f) 16 ?s))) =
        [StoreResult 17]"
    by simp
  from failed stored succeeded
    out_written_iff_success [of ?s "Some (\<lambda>k e. (0, ENOENT))" 99]
  show ?thesis by simp
qed

text \<open>
  Claim C3: with the weak symbol unresolved, for every key the call returns \<open>- 1\<close>,
  leaves \<^verbatim>\<open>*result\<close> as it was and does not invoke the facility.
\<close>

theorem absent_returns_minus_one:
  assumes "g = None"
  shows "fst (getauxval_wrapper g key s) = - 1 \<and>
         out_cell (snd (getauxval_wrapper g key s)) = out_cell s \<and>
         \<not> list_ex is_call (new_events s (snd (getauxval_wrapper g key s)))"
  using assms by (simp add: wrapper_absent)

text \<open>Claim C3 at key 16 with the cell holding 42.\<close>

theorem absent_returns_minus_one_witness:
  "fst (getauxval_wrapper None (16 :: 64 word) \<lparr>errno = 0, out_cell = 42, trace = []\<rparr>) = - 1 \<and>
   out_cell (snd (getauxval_wrapper None (16 :: 64 word)
      \<lparr>errno = 0, out_cell = 42, trace = []\<rparr>)) = 42 \<and>
   \<not> list_ex is_call (new_events \<lparr>errno = 0, out_cell = 42, trace = []\<rparr>
      (snd (getauxval_wrapper None (16 :: 64 word) \<lparr>errno = 0, out_cell = 42, trace = []\<rparr>)))"
  using absent_returns_minus_one
    [of None "16 :: 64 word" "\<lparr>errno = 0, out_cell = 42, trace = []\<rparr>", OF refl]
  by simp

text \<open>
  Claim C4: with the facility present, if \<^verbatim>\<open>errno\<close> is \<^verbatim>\<open>ENOENT\<close> after the facility
  call, the wrapper returns 0, leaves \<^verbatim>\<open>*result\<close> as it was, and \<^verbatim>\<open>errno\<close> is 0
  after it returns.
\<close>

theorem enoent_returns_zero:
  assumes "g = Some f" and "snd (f key (errno s)) = ENOENT"
  shows "fst (getauxval_wrapper g key s) = 0 \<and>
         out_cell (snd (getauxval_wrapper g key s)) = out_cell s \<and>
         errno (snd (getauxval_wrapper g key s)) = 0"
  using assms by (cases g key s rule: wrapper_cases) (simp_all add: ENOENT_def)

text \<open>Claim C4 at a facility that knows no key.\<close>

theorem enoent_returns_zero_witness:
  "snd ((\<lambda>k e. (0 :: 64 word, ENOENT)) (99 :: 64 word) 0) = ENOENT \<and>
   fst (getauxval_wrapper (Some (\<lambda>k e. (0, ENOENT))) (99 :: 64 word)
          \<lparr>errno = 0, out_cell = 42, trace = []\<rparr>) = 0 \<and>
   out_cell (snd (getauxval_wrapper (Some (\<lambda>k e. (0, ENOENT))) (99 :: 64 word)
          \<lparr>errno = 0, out_cell = 42, trace = []\<rparr>)) = 42 \<and>
   errno (snd (getauxval_wrapper (Some (\<lambda>k e. (0, ENOENT))) (99 :: 64 word)
          \<lparr>errno = 0, out_cell = 42, trace = []\<rparr>)) = 0"
proof -
  let ?s = "\<lparr>errno = 0, out_cell = 42 :: 64 word, trace = []\<rparr>"
  let ?f = "\<lambda>(k :: 64 word) (e :: c_int). (0 :: 64 word, ENOENT)"
  have h: "snd (?f 99 (errno ?s)) = ENOENT" by simp
  from enoent_returns_zero [of "Some ?f" ?f 99 ?s, OF refl h]
  show ?thesis by simp
qed

text \<open>
  Claim C5: with the facility present, if \<^verbatim>\<open>errno\<close> after the facility call is neither 0
  nor \<^verbatim>\<open>ENOENT\<close>, the wrapper returns \<open>- 2\<close>, leaves \<^verbatim>\<open>*result\<close> as it was, and
  \<^verbatim>\<open>errno\<close> is 0 after it returns.
\<close>

theorem other_error_returns_minus_two:
  assumes "g = Some f" and "snd (f key (errno s)) \<noteq> 0" and "snd (f key (errno s)) \<noteq> ENOENT"
  shows "fst (getauxval_wrapper g key s) = - 2 \<and>
         out_cell (snd (getauxval_wrapper g key s)) = out_cell s \<and>
         errno (snd (getauxval_wrapper g key s)) = 0"
  using assms by (cases g key s rule: wrapper_cases) simp_all

text \<open>Claim C5 at a facility that fails with error 22.\<close>

theorem other_error_returns_minus_two_witness:
  "snd ((\<lambda>k e. (0 :: 64 word, 22 :: c_int)) (99 :: 64 word) 0) \<noteq> 0 \<and>
   snd ((\<lambda>k e. (0 :: 64 word, 22 :: c_int)) (99 :: 64 word) 0) \<noteq> ENOENT \<and>
   fst (getauxval_wrapper (Some (\<lambda>k e. (0, 22))) (99 :: 64 word)
          \<lparr>errno = 0, out_cell = 42, trace = []\<rparr>) = - 2 \<and>
   out_cell (snd (getauxval_wrapper (Some (\<lambda>k e. (0, 22))) (99 :: 64 word)
          \<lparr>errno = 0, out_cell = 42, trace = []\<rparr>)) = 42 \<and>
   errno (snd (getauxval_wrapper (Some (\<lambda>k e. (0, 22))) (99 :: 64 word)
          \<lparr>errno = 0, out_cell = 42, trace = []\<rparr>)) = 0"
proof -
  let ?s = "\<lparr>errno = 0, out_cell = 42 :: 64 word, trace = []\<rparr>"
  let ?f = "\<lambda>(k :: 64 word) (e :: c_int). (0 :: 64 word, 22 :: c_int)"
  have h1: "snd (?f 99 (errno ?s)) \<noteq> 0" by simp
  have h2: "snd (?f 99 (errno ?s)) \<noteq> ENOENT" by (simp add: ENOENT_def)
  from h1 h2 other_error_returns_minus_two [of "Some ?f" ?f 99 ?s, OF refl h1 h2]
  show ?thesis by simp
qed

text \<open>
  Claim C6: with the facility present, if its call leaves \<^verbatim>\<open>errno\<close> at 0, the wrapper
  returns 1 and \<^verbatim>\<open>*result\<close> holds the value the facility returned for the key.
\<close>

theorem success_returns_one:
  assumes "g = Some f" and "snd (f key (errno s)) = 0"
  shows "fst (getauxval_wrapper g key s) = 1 \<and>
         out_cell (snd (getauxval_wrapper g key s)) = fst (f key (errno s))"
  using assms by (cases g key s rule: wrapper_cases) (simp_all add: ENOENT_def)

text \<open>Claim C6 at a facility that returns the key plus one and leaves \<^verbatim>\<open>errno\<close> alone.\<close>

theorem success_returns_one_witness:
  "snd ((\<lambda>k e. (k + 1, e)) (16 :: 64 word) (0 :: c_int)) = 0 \<and>
   fst (getauxval_wrapper (Some (\<lambda>k e. (k + 1, e))) (16 :: 64 word)
          \<lparr>errno = 0, out_cell = 42, trace = []\<rparr>) = 1 \<and>
   out_cell (snd (getauxval_wrapper (Some (\<lambda>k e. (k + 1, e))) (16 :: 64 word)
          \<lparr>errno = 0, out_cell = 42, trace = []\<rparr>)) = 17"
proof -
  let ?s = "\<lparr>errno = 0, out_cell = 42 :: 64 word, trace = []\<rparr>"
  let ?f = "\<lambda>(k :: 64 word) (e :: c_int). (k + 1, e)"
  have h: "snd (?f 16 (errno ?s)) = 0" by simp
  from success_returns_one [of "Some ?f" ?f 16 ?s, OF refl h]
  show ?thesis by simp
qed

text \<open>
  Claim C7: for every key and every state of the facility and of \<^verbatim>\<open>errno\<close>, the call
  returns one of the codes 1, 0, \<open>- 1\<close>, \<open>- 2\<close>. The four codes are different values, and
  each is returned exactly under its own condition (symbol unresolved; indicator
  \<^verbatim>\<open>ENOENT\<close> after the facility call; indicator another nonzero value; indicator 0), so
  the outcomes exclude each other. The function is total and its result has no further
  alternative: there is no other exit.
\<close>

theorem four_outcomes:
  "fst (getauxval_wrapper g key s) \<in> {1, 0, - 1, - 2} \<and>
   distinct [1, 0, - 1, - 2 :: 32 word] \<and>
   (fst (getauxval_wrapper g key s) = - 1 \<longleftrightarrow> g = None) \<and>
   (fst (getauxval_wrapper g key s) = 0 \<longleftrightarrow>
      (\<exists>f. g = Some f \<and> snd (f key (errno s)) = ENOENT)) \<and>
   (fst (getauxval_wrapper g key s) = - 2 \<longleftrightarrow>
      (\<exists>f. g = Some f \<and> snd (f key (errno s)) \<noteq> ENOENT \<and> snd (f key (errno s)) \<noteq> 0)) \<and>
   (fst (getauxval_wrapper g key s) = 1 \<longleftrightarrow>
      (\<exists>f. g = Some f \<and> snd (f key (errno s)) = 0))"
  by (cases g key s rule: wrapper_cases) (simp_all add: ENOENT_def)

text \<open>Claim C7 at a facility that fails with error 22: the code is \<open>- 2\<close> and no other.\<close>

theorem four_outcomes_witness:
  "fst (getauxval_wrapper (Some (\<lambda>k e. (0, 22))) (99 :: 64 word)
          \<lparr>errno = 0, out_cell = 42, trace = []\<rparr>) \<in> {1, 0, - 1, - 2} \<and>
   fst (getauxval_wrapper (Some (\<lambda>k e. (0, 22))) (99 :: 64 word)
          \<lparr>errno = 0, out_cell = 42, trace = []\<rparr>) = - 2 \<and>
   fst (getauxval_wrapper (Some (\<lambda>k e. (0, 22))) (99 :: 64 word)
          \<lparr>errno = 0, out_cell = 42, trace = []\<rparr>) \<noteq> 1"
proof -
  let ?s = "\<lparr>errno = 0, out_cell = 42 :: 64 word, trace = []\<rparr>"
  let ?f = "\<lambda>(k :: 64 word) (e :: c_int). (0 :: 64 word, 22 :: c_int)"
  have "\<exists>f. Some ?f = Some f \<and> snd (f 99 (errno ?s)) \<noteq> ENOENT \<and> snd (f 99 (errno ?s)) \<noteq> 0"
    by (simp add: ENOENT_def)
  with four_outcomes [of "Some ?f" 99 ?s]
  have "fst (getauxval_wrapper (Some ?f) 99 ?s) = - 2"
    by blast
  then show ?thesis by simp
qed

text \<open>
  Claim C8: with a present facility that, for the given key, returns the same value \<open>v\<close>
  and leaves \<^verbatim>\<open>errno\<close> at 0 on both invocations, two calls of the wrapper in succession
  with that key both return 1 and both store \<open>v\<close> (and nothing else) to \<^verbatim>\<open>*result\<close>.
  The second call runs in the world the first one left, where \<^verbatim>\<open>errno\<close> is 0.
\<close>

theorem repeated_success:
  assumes "g = Some f" and "f key (errno s) = (v, 0)" and "f key 0 = (v, 0)"
  shows "fst (getauxval_wrapper g key s) = 1 \<and>
         out_cell (snd (getauxval_wrapper g key s)) = v \<and>
         filter is_store (new_events s (snd (getauxval_wrapper g key s))) = [StoreResult v] \<and>
         fst (getauxval_wrapper g key (snd (getauxval_wrapper g key s))) = 1 \<and>
         out_cell (snd (getauxval_wrapper g key (snd (getauxval_wrapper g key s)))) = v \<and>
         filter is_store (new_events (snd (getauxval_wrapper g key s))
            (snd (getauxval_wrapper g key (snd (getauxval_wrapper g key s))))) = [StoreResult v]"
proof -
  define s1 where "s1 = snd (getauxval_wrapper g key s)"
  have first: "getauxval_wrapper g key s =
      (1, s\<lparr>errno := 0, out_cell := v,
            trace := trace s @ [CallFacility key, ReadErrno, ReadErrno, StoreResult v]\<rparr>)"
    using assms by (simp add: wrapper_success [of f key s v 0])
  then have e1: "errno s1 = 0" by (simp add: s1_def)
  have second: "getauxval_wrapper g key s1 =
      (1, s1\<lparr>errno := 0, out_cell := v,
             trace := trace s1 @ [CallFacility key, ReadErrno, ReadErrno, StoreResult v]\<rparr>)"
    using assms e1 by (simp add: wrapper_success [of f key s1 v 0])
  have "fst (getauxval_wrapper g key s) = 1 \<and> out_cell s1 = v \<and>
        filter is_store (new_events s s1) = [StoreResult v]"
    using first by (simp add: s1_def)
  moreover have "fst (getauxval_wrapper g key s1) = 1 \<and>
        out_cell (snd (getauxval_wrapper g key s1)) = v \<and>
        filter is_store (new_events s1 (snd (getauxval_wrapper g key s1))) = [StoreResult v]"
    using second by simp
  ultimately show ?thesis by (simp add: s1_def)
qed

text \<open>Claim C8 at a facility that returns the key plus one and leaves \<^verbatim>\<open>errno\<close> alone.\<close>

theorem repeated_success_witness:
  "(\<lambda>k e. (k + 1, e)) (16 :: 64 word) (0 :: c_int) = (17, 0) \<and>
   fst (getauxval_wrapper (Some (\<lambda>k e. (k + 1, e))) (16 :: 64 word)
          \<lparr>errno = 0, out_cell = 42, trace = []\<rparr>) = 1 \<and>
   out_cell (snd (getauxval_wrapper (Some (\<lambda>k e. (k + 1, e))) (16 :: 64 word)
          \<lparr>errno = 0, out_cell = 42, trace = []\<rparr>)) = 17 \<and>
   fst (getauxval_wrapper (Some (\<lambda>k e. (k + 1, e))) (16 :: 64 word)
          (snd (getauxval_wrapper (Some (\<lambda>k e. (k + 1, e))) (16 :: 64 word)
             \<lparr>errno = 0, out_cell = 42, trace = []\<rparr>))) = 1 \<and>
   out_cell (snd (getauxval_wrapper (Some (\<lambda>k e. (k + 1, e))) (16 :: 64 word)
          (snd (getauxval_wrapper (Some (\<lambda>k e. (k + 1, e))) (16 :: 64 word)
             \<lparr>errno = 0, out_cell = 42, trace = []\<rparr>)))) = 17"
proof -
  let ?s = "\<lparr>errno = 0, out_cell = 42 :: 64 word, trace = []\<rparr>"
  let ?f = "\<lambda>(k :: 64 word) (e :: c_int). (k + 1, e)"
  have h1: "?f 16 (errno ?s) = (17, 0)" by simp
  have h2: "?f 16 0 = (17, 0)" by simp
  from h2 repeated_success [of "Some ?f" ?f 16 ?s 17, OF refl h1 h2]
  show ?thesis by simp
qed

text \<open>
  Claim C9: with the weak symbol unresolved, \<^verbatim>\<open>errno\<close> after the call is what it was at
  entry, and the call neither reads nor writes it.
\<close>

theorem absent_leaves_errno:
  assumes "g = None"
  shows "errno (snd (getauxval_wrapper g key s)) = errno s \<and>
         \<not> list_ex is_errno_access (new_events s (snd (getauxval_wrapper g key s)))"
  using assms by (simp add: wrapper_absent)

text \<open>Claim C9 at an entry \<^verbatim>\<open>errno\<close> of 7.\<close>

theorem absent_leaves_errno_witness:
  "errno (snd (getauxval_wrapper None (16 :: 64 word)
      \<lparr>errno = 7, out_cell = 42, trace = []\<rparr>)) = 7 \<and>
   \<not> list_ex is_errno_access (new_events \<lparr>errno = 7, out_cell = 42, trace = []\<rparr>
      (snd (getauxval_wrapper None (16 :: 64 word) \<lparr>errno = 7, out_cell = 42, trace = []\<rparr>)))"
  using absent_leaves_errno
    [of None "16 :: 64 word" "\<lparr>errno = 7, out_cell = 42, trace = []\<rparr>", OF refl]
  by simp

text \<open>
  Claim C10: the wrapper never writes \<^verbatim>\<open>errno\<close> before it invokes the facility. So if
  \<^verbatim>\<open>errno\<close> is \<^verbatim>\<open>ENOENT\<close> at entry and the facility call leaves it unchanged, the
  wrapper returns 0 and leaves \<^verbatim>\<open>*result\<close> as it was, whatever value \<open>v\<close> the facility
  returned for the key.
\<close>

theorem stale_enoent_hides_value:
  "\<not> list_ex is_errno_write
       (takeWhile (\<lambda>ev. \<not> is_call ev) (new_events s (snd (getauxval_wrapper g key s)))) \<and>
   (g = Some f \<and> errno s = ENOENT \<and> f key (errno s) = (v, errno s) \<longrightarrow>
      fst (getauxval_wrapper g key s) = 0 \<and>
      out_cell (snd (getauxval_wrapper g key s)) = out_cell s)"
  by (cases g key s rule: wrapper_cases) (auto simp: ENOENT_def)

text \<open>
  Claim C10 at a facility that returns the key plus one and leaves \<^verbatim>\<open>errno\<close> alone:
  entered with \<^verbatim>\<open>ENOENT\<close> the wrapper returns 0 and the cell keeps 42, entered with 0 it
  returns 1 and the cell holds 17. The outcome depends on the indicator at entry.
\<close>

theorem stale_enoent_hides_value_witness:
  "(\<lambda>k e. (k + 1, e)) (16 :: 64 word) ENOENT = (17, ENOENT) \<and>
   fst (getauxval_wrapper (Some (\<lambda>k e. (k + 1, e))) (16 :: 64 word)
          \<lparr>errno = ENOENT, out_cell = 42, trace = []\<rparr>) = 0 \<and>
   out_cell (snd (getauxval_wrapper (Some (\<lambda>k e. (k + 1, e))) (16 :: 64 word)
          \<lparr>errno = ENOENT, out_cell = 42, trace = []\<rparr>)) = 42 \<and>
   fst (getauxval_wrapper (Some (\<lambda>k e. (k + 1, e))) (16 :: 64 word)
          \<lparr>errno = 0, out_cell = 42, trace = []\<rparr>) = 1 \<and>
   out_cell (snd (getauxval_wrapper (Some (\<lambda>k e. (k + 1, e))) (16 :: 64 word)
          \<lparr>errno = 0, out_cell = 42, trace = []\<rparr>)) = 17"
proof -
  let ?s = "\<lparr>errno = ENOENT, out_cell = 42 :: 64 word, trace = []\<rparr>"
  let ?t = "\<lparr>errno = 0, out_cell = 42 :: 64 word, trace = []\<rparr>"
  let ?f = "\<lambda>(k :: 64 word) (e :: c_int). (k + 1, e)"
  have h: "Some ?f = Some ?f \<and> errno ?s = ENOENT \<and> ?f 16 (errno ?s) = (17, errno ?s)"
    by simp
  have fresh: "getauxval_wrapper (Some ?f) 16 ?t =
      (1, ?t\<lparr>errno := 0, out_cell := 17,
              trace := trace ?t @ [CallFacility 16, ReadErrno, ReadErrno, StoreResult 17]\<rparr>)"
    by (rule wrapper_success [of ?f 16 ?t 17 0]) simp_all
  from h stale_enoent_hides_value [of ?s "Some ?f" 16 ?f 17] fresh
  show ?thesis by simp
qed

end
